theory Spec2Isabelle
  imports Main
begin

section \<open>Hadoop panel: table actions (dashboards/project/hadoop/tables.py)\<close>

text \<open>
  The cluster-management client (\<open>ehoclient\<close>) is an external library. Its two entry
  points used by the panel are recorded as calls on a client log; everything else a
  table action could touch (flash messages of the request) is kept in the same record,
  so that a frame condition can be stated.
\<close>

datatype client_call =
    Terminate_cluster string
  | Delete_template string

record panel_world =
  client_calls :: "client_call list"
  flash_messages :: "string list"

definition terminate_cluster :: "string \<Rightarrow> panel_world \<Rightarrow> panel_world" where
  "terminate_cluster cluster_id w =
     w\<lparr>client_calls := client_calls w @ [Terminate_cluster cluster_id]\<rparr>"

definition delete_template :: "string \<Rightarrow> panel_world \<Rightarrow> panel_world" where
  "delete_template template_id w =
     w\<lparr>client_calls := client_calls w @ [Delete_template template_id]\<rparr>"

text \<open>
  The request is not inspected by any of the actions below; it is carried as a list of
  GET parameters.
\<close>

type_synonym request = "(string \<times> string) list"

text \<open>\<open>DeleteTemplate.action(self, request, template_id)\<close>: \<open>delete_template(template_id)\<close>.\<close>

definition DeleteTemplate_action :: "request \<Rightarrow> string \<Rightarrow> panel_world \<Rightarrow> panel_world" where
  "DeleteTemplate_action request template_id w = delete_template template_id w"

text \<open>\<open>TerminateCluster.action(self, request, cluster_id)\<close>: \<open>terminate_cluster(cluster_id)\<close>.\<close>

definition TerminateCluster_action :: "request \<Rightarrow> string \<Rightarrow> panel_world \<Rightarrow> panel_world" where
  "TerminateCluster_action request cluster_id w = terminate_cluster cluster_id w"

text \<open>\<open>CreateCluster.action(self, request, datum_id)\<close>: the body is \<open>pass\<close>.\<close>

definition CreateCluster_action :: "request \<Rightarrow> string \<Rightarrow> panel_world \<Rightarrow> panel_world" where
  "CreateCluster_action request datum_id w = w"

text \<open>The link target of the \<open>CreateCluster\<close> link action (class attribute \<open>url\<close>).\<close>

definition CreateCluster_url :: string where
  "CreateCluster_url = ''horizon:project:hadoop:create_cluster''"

text \<open>
  The argument \<open>instance\<close> of \<open>TerminateInstance.allowed\<close> defaults to \<open>None\<close>. An
  object passed there is tested for truth by \<open>if instance:\<close>; the truth value of an
  object is carried with it (\<open>True\<close> for an ordinary API object).
\<close>

record instance_obj =
  status :: string

datatype instance_arg =
    PyNone
  | PyObj bool instance_obj

fun truthy :: "instance_arg \<Rightarrow> bool" where
  "truthy PyNone = False"
| "truthy (PyObj b i) = b"

fun TerminateInstance_allowed :: "request \<Rightarrow> instance_arg \<Rightarrow> bool" where
  "TerminateInstance_allowed request PyNone = True"
| "TerminateInstance_allowed request (PyObj b i) =
     (if b then status i \<notin> set [''PAUSED'', ''SUSPENDED''] else True)"

section \<open>Usage reports and CSV export (usage/base.py)\<close>

subsection \<open>Python values and exceptions\<close>

text \<open>
  The values that flow through the module: \<open>None\<close>, booleans, unbounded integers,
  text and times. Exceptions are values of the type \<open>error\<close>; a function that can raise returns
  \<open>error + 'a\<close>, with \<open>Inl\<close> for the exception.
\<close>

datatype pyval = PNone | PBool bool | PInt int | PStr string | PTime int

text \<open>The truth value of a Python value in a condition.\<close>

fun py_truthy :: "pyval \<Rightarrow> bool" where
  "py_truthy PNone = False"
| "py_truthy (PBool b) = b"
| "py_truthy (PInt n) = (n \<noteq> 0)"
| "py_truthy (PStr s) = (s \<noteq> [])"
| "py_truthy (PTime t) = True"

datatype error = ValueError | KeyError | TypeError | OverflowError | NotImplementedError | ApiError string

subsection \<open>The output buffer (\<open>StringIO.StringIO\<close> of Python 2)\<close>

text \<open>
  The buffer holds the text written so far and a file position. \<open>write\<close> appends at
  the position when it is at the end, pads with NUL characters beyond the end, and
  overwrites in the middle; an empty string is not written at all. \<open>truncate(size)\<close>
  cuts the text and moves the position back to \<open>size\<close> when it was beyond it; the
  module calls it with \<open>size = 0\<close> only.
\<close>

record stringio =
  buf :: string
  pos :: nat

definition StringIO :: stringio where
  "StringIO = \<lparr>buf = [], pos = 0\<rparr>"

definition StringIO_write :: "string \<Rightarrow> stringio \<Rightarrow> stringio" where
  "StringIO_write s sio =
     (if s = [] then sio
      else let spos = pos sio; slen = length (buf sio); newpos = spos + length s in
        if spos = slen then \<lparr>buf = buf sio @ s, pos = newpos\<rparr>
        else if spos > slen then
          \<lparr>buf = buf sio @ replicate (spos - slen) (CHR 0x00) @ s, pos = newpos\<rparr>
        else \<lparr>buf = take spos (buf sio) @ s @ drop newpos (buf sio), pos = newpos\<rparr>)"

definition StringIO_getvalue :: "stringio \<Rightarrow> string" where
  "StringIO_getvalue sio = buf sio"

definition StringIO_truncate :: "nat \<Rightarrow> stringio \<Rightarrow> stringio" where
  "StringIO_truncate sz sio =
     \<lparr>buf = take sz (buf sio), pos = (if sz < pos sio then sz else pos sio)\<rparr>"

subsection \<open>\<open>CsvDataMixin\<close>\<close>

text \<open>
  A dictionary built by \<open>dict(zip(keys, values))\<close> is kept as the list of pairs in the
  order of insertion; a later pair with the same key wins, so a lookup reads the list
  from its end.
\<close>

type_synonym py_dict = "(string \<times> string) list"

definition dict_get :: "py_dict \<Rightarrow> string \<Rightarrow> string \<Rightarrow> string" where
  "dict_get d k dflt = (case map_of (rev d) k of Some v \<Rightarrow> v | None \<Rightarrow> dflt)"

text \<open>
  The attributes \<open>out\<close>, \<open>is_dict\<close> and \<open>writer.fieldnames\<close> of the mixin. The two
  library functions the mixin relies on are parameters of the model:
  \<^item> \<open>fmt\<close>: the text that \<open>csv.writer(out).writerow(row)\<close> writes for a row of
    encoded cells (quoting and line terminator of the dialect);
  \<^item> \<open>encode\<close>: \<open>unicode(value).encode('utf-8')\<close>, taken as a total function.
  \<open>columns\<close> is \<open>None\<close> when the class defines no \<open>columns\<close> attribute.
\<close>

record csv_data =
  out :: stringio
  is_dict :: bool
  fieldnames :: "string list"

definition CsvDataMixin_init ::
  "(pyval \<Rightarrow> string) \<Rightarrow> pyval list option \<Rightarrow> csv_data" where
  "CsvDataMixin_init encode columns =
     (case columns of
        Some cols \<Rightarrow> \<lparr>out = StringIO, is_dict = True, fieldnames = map encode cols\<rparr>
      | None \<Rightarrow> \<lparr>out = StringIO, is_dict = False, fieldnames = []\<rparr>)"

text \<open>\<open>csv.writer.writerow\<close>: the formatted row is written to \<open>out\<close>.\<close>

definition writer_writerow :: "(string list \<Rightarrow> string) \<Rightarrow> string list \<Rightarrow> csv_data \<Rightarrow> csv_data" where
  "writer_writerow fmt row self = self\<lparr>out := StringIO_write (fmt row) (out self)\<rparr>"

text \<open>
  \<open>csv.DictWriter.writerow(rowdict)\<close>: a key of \<open>rowdict\<close> that is no field name raises
  \<open>ValueError\<close>; otherwise the row is the value of each field name in turn, the empty
  string where the dictionary has none.
\<close>

definition DictWriter_writerow ::
  "(string list \<Rightarrow> string) \<Rightarrow> py_dict \<Rightarrow> csv_data \<Rightarrow> error + csv_data" where
  "DictWriter_writerow fmt rowdict self =
     (let wrong_fields = filter (\<lambda>k. k \<notin> set (fieldnames self)) (map fst rowdict) in
      if wrong_fields \<noteq> [] then Inl ValueError
      else Inr (writer_writerow fmt (map (\<lambda>key. dict_get rowdict key []) (fieldnames self)) self))"

text \<open>
  \<open>write_csv_header\<close>: \<open>writeheader()\<close> writes the row
  \<open>dict(zip(fieldnames, fieldnames))\<close>, as the fallback for older Pythons does.
\<close>

definition write_csv_header :: "(string list \<Rightarrow> string) \<Rightarrow> csv_data \<Rightarrow> error + csv_data" where
  "write_csv_header fmt self =
     (if is_dict self
      then DictWriter_writerow fmt (zip (fieldnames self) (fieldnames self)) self
      else Inr self)"

definition write_csv_row ::
  "(string list \<Rightarrow> string) \<Rightarrow> (pyval \<Rightarrow> string) \<Rightarrow> pyval list \<Rightarrow> csv_data \<Rightarrow> error + csv_data" where
  "write_csv_row fmt encode args self =
     (if is_dict self
      then DictWriter_writerow fmt (zip (fieldnames self) (map encode args)) self
      else Inr (writer_writerow fmt (map encode args) self))"

subsection \<open>\<open>BaseCsvResponse\<close> and \<open>BaseCsvStreamingResponse\<close>\<close>

text \<open>
  \<open>header\<close> is the text rendered from the header template, \<open>None\<close> when no template is
  given. Both classes start with \<open>if self.header: self.out.write(self.encode(self.header))\<close>.
\<close>

definition write_header_text :: "(pyval \<Rightarrow> string) \<Rightarrow> string option \<Rightarrow> csv_data \<Rightarrow> csv_data" where
  "write_header_text encode header self =
     (case header of
        None \<Rightarrow> self
      | Some h \<Rightarrow> if h \<noteq> [] then self\<lparr>out := StringIO_write (encode (PStr h)) (out self)\<rparr> else self)"

text \<open>The loop \<open>for row in self.get_row_data(): self.write_csv_row(row)\<close>.\<close>

fun write_rows ::
  "(string list \<Rightarrow> string) \<Rightarrow> (pyval \<Rightarrow> string) \<Rightarrow> pyval list list \<Rightarrow> csv_data \<Rightarrow> error + csv_data" where
  "write_rows fmt encode [] self = Inr self"
| "write_rows fmt encode (row # rows) self =
     (case write_csv_row fmt encode row self of
        Inl e \<Rightarrow> Inl e
      | Inr self' \<Rightarrow> write_rows fmt encode rows self')"

text \<open>
  \<open>BaseCsvResponse.__init__\<close>, from the creation of the buffer to
  \<open>self.content = self.out.getvalue()\<close>; the result is the content.
\<close>

definition BaseCsvResponse_init ::
  "(string list \<Rightarrow> string) \<Rightarrow> (pyval \<Rightarrow> string) \<Rightarrow> pyval list option \<Rightarrow> string option
     \<Rightarrow> pyval list list \<Rightarrow> error + string" where
  "BaseCsvResponse_init fmt encode columns header get_row_data =
     (let self = CsvDataMixin_init encode columns;
          self = write_header_text encode header self
      in case write_csv_header fmt self of
           Inl e \<Rightarrow> Inl e
         | Inr self \<Rightarrow>
             (case write_rows fmt encode get_row_data self of
                Inl e \<Rightarrow> Inl e
              | Inr self \<Rightarrow> Inr (StringIO_getvalue (out self))))"

text \<open>\<open>buffer\<close>: the value of the buffer, which is then emptied.\<close>

definition buffer :: "csv_data \<Rightarrow> string \<times> csv_data" where
  "buffer self = (StringIO_getvalue (out self), self\<lparr>out := StringIO_truncate 0 (out self)\<rparr>)"

text \<open>
  The loop of the generator \<open>get_content\<close>: one chunk per row. The generator is run to
  its end and the chunks are collected in order.
\<close>

fun stream_rows ::
  "(string list \<Rightarrow> string) \<Rightarrow> (pyval \<Rightarrow> string) \<Rightarrow> pyval list list \<Rightarrow> csv_data \<Rightarrow> error + string list" where
  "stream_rows fmt encode [] self = Inr []"
| "stream_rows fmt encode (row # rows) self =
     (case write_csv_row fmt encode row self of
        Inl e \<Rightarrow> Inl e
      | Inr self' \<Rightarrow>
          (let (chunk, self'') = buffer self' in
           case stream_rows fmt encode rows self'' of
             Inl e \<Rightarrow> Inl e
           | Inr chunks \<Rightarrow> Inr (chunk # chunks)))"

definition get_content ::
  "(string list \<Rightarrow> string) \<Rightarrow> (pyval \<Rightarrow> string) \<Rightarrow> pyval list option \<Rightarrow> string option
     \<Rightarrow> pyval list list \<Rightarrow> error + string list" where
  "get_content fmt encode columns header get_row_data =
     (let self = CsvDataMixin_init encode columns;
          self = write_header_text encode header self
      in case write_csv_header fmt self of
           Inl e \<Rightarrow> Inl e
         | Inr self \<Rightarrow>
             (let (chunk, self) = buffer self in
              case stream_rows fmt encode get_row_data self of
                Inl e \<Rightarrow> Inl e
              | Inr chunks \<Rightarrow> Inr (chunk # chunks)))"

subsection \<open>The content as the specification describes it\<close>

text \<open>
  The optional encoded header, then the CSV header row when columns are defined, then one
  CSV row per element of \<open>get_row_data\<close>, in order.
\<close>

definition csv_row_text ::
  "(string list \<Rightarrow> string) \<Rightarrow> (pyval \<Rightarrow> string) \<Rightarrow> pyval list option \<Rightarrow> pyval list \<Rightarrow> string" where
  "csv_row_text fmt encode columns args =
     (case columns of
        None \<Rightarrow> fmt (map encode args)
      | Some cols \<Rightarrow>
          fmt (map (\<lambda>key. dict_get (zip (map encode cols) (map encode args)) key [])
                 (map encode cols)))"

definition spec_csv_content ::
  "(string list \<Rightarrow> string) \<Rightarrow> (pyval \<Rightarrow> string) \<Rightarrow> pyval list option \<Rightarrow> string option
     \<Rightarrow> pyval list list \<Rightarrow> string" where
  "spec_csv_content fmt encode columns header rows =
     (case header of None \<Rightarrow> [] | Some h \<Rightarrow> if h = [] then [] else encode (PStr h))
     @ (case columns of None \<Rightarrow> [] | Some cols \<Rightarrow> fmt (map encode cols))
     @ concat (map (csv_row_text fmt encode columns) rows)"

subsection \<open>Auxiliary notions for the proofs\<close>

definition row_text ::
  "(string list \<Rightarrow> string) \<Rightarrow> (pyval \<Rightarrow> string) \<Rightarrow> csv_data \<Rightarrow> pyval list \<Rightarrow> string" where
  "row_text fmt encode self args =
     (if is_dict self
      then fmt (map (\<lambda>key. dict_get (zip (fieldnames self) (map encode args)) key [])
                  (fieldnames self))
      else fmt (map encode args))"

definition appended :: "csv_data \<Rightarrow> string \<Rightarrow> csv_data" where
  "appended self s =
     self\<lparr>out := \<lparr>buf = buf (out self) @ s, pos = length (buf (out self)) + length s\<rparr>\<rparr>"

definition wf :: "csv_data \<Rightarrow> bool" where
  "wf self \<longleftrightarrow> pos (out self) = length (buf (out self))"

definition header_bytes :: "(pyval \<Rightarrow> string) \<Rightarrow> string option \<Rightarrow> string" where
  "header_bytes encode header =
     (case header of None \<Rightarrow> [] | Some h \<Rightarrow> if h = [] then [] else encode (PStr h))"

subsection \<open>Dates and times (\<open>datetime\<close>, \<open>calendar\<close>, \<open>django.utils.timezone\<close>)\<close>

text \<open>
  Every time in the module is in UTC. A \<open>datetime\<close> is the number of microseconds since
  0001-01-01 00:00:00, so that comparison is comparison of integers and adding a
  \<open>timedelta\<close> is addition; the calendar fields are computed by the proleptic Gregorian
  rules of the \<open>datetime\<close> module. \<open>make_aware(t, utc)\<close> and \<open>make_naive(t, utc)\<close> attach
  and remove the UTC zone and keep the reading.
\<close>

type_synonym datetime = int

definition usec_per_day :: int where
  "usec_per_day = 86400 * 1000000"

definition MAXORDINAL :: int where
  "MAXORDINAL = 3652059"

definition is_leap :: "int \<Rightarrow> bool" where
  "is_leap year \<longleftrightarrow> year mod 4 = 0 \<and> (year mod 100 \<noteq> 0 \<or> year mod 400 = 0)"

definition mdays :: "int \<Rightarrow> int \<Rightarrow> int" where
  "mdays year month =
     (if month = 2 then (if is_leap year then 29 else 28)
      else if month \<in> set [4, 6, 9, 11] then 30 else 31)"

definition days_before_year :: "int \<Rightarrow> int" where
  "days_before_year year =
     (let y = year - 1 in y * 365 + y div 4 - y div 100 + y div 400)"

text \<open>The table \<open>_DAYS_BEFORE_MONTH\<close>, read for months 1 to 12 only.\<close>

definition days_before_month :: "int \<Rightarrow> int \<Rightarrow> int" where
  "days_before_month year month =
     [0, 0, 31, 59, 90, 120, 151, 181, 212, 243, 273, 304, 334] ! nat month
     + (if month > 2 \<and> is_leap year then 1 else 0)"

definition ymd2ord :: "int \<Rightarrow> int \<Rightarrow> int \<Rightarrow> int" where
  "ymd2ord year month day = days_before_year year + days_before_month year month + day"

text \<open>
  \<open>datetime.datetime(year, month, day, 0, 0, 0)\<close>: the constructor checks the ranges of
  its arguments.
\<close>

definition datetime_new :: "int \<Rightarrow> int \<Rightarrow> int \<Rightarrow> error + datetime" where
  "datetime_new year month day =
     (if \<not> (1 \<le> year \<and> year \<le> 9999) then Inl ValueError
      else if \<not> (1 \<le> month \<and> month \<le> 12) then Inl ValueError
      else if \<not> (1 \<le> day \<and> day \<le> mdays year month) then Inl ValueError
      else Inr ((ymd2ord year month day - 1) * usec_per_day))"

text \<open>
  \<open>calendar.monthrange(year, month)[1]\<close>: the number of days of the month.
  \<open>monthrange\<close> rejects a month outside 1..12 and computes the weekday of the first day
  through \<open>datetime.date\<close>, which rejects a year outside 1..9999.
\<close>

definition monthrange_days :: "int \<Rightarrow> int \<Rightarrow> error + int" where
  "monthrange_days year month =
     (if \<not> (1 \<le> month \<and> month \<le> 12) then Inl ValueError
      else if \<not> (1 \<le> year \<and> year \<le> 9999) then Inl ValueError
      else Inr (mdays year month))"

text \<open>\<open>datetime.timedelta(days=n)\<close> and \<open>datetime.timedelta(seconds=n)\<close>, in microseconds.\<close>

definition timedelta_days :: "int \<Rightarrow> int" where
  "timedelta_days n = n * usec_per_day"

definition timedelta_seconds :: "int \<Rightarrow> int" where
  "timedelta_seconds n = n * 1000000"

text \<open>
  \<open>t + delta\<close> on a \<open>datetime\<close>: a result before year 1 or after year 9999 raises
  \<open>OverflowError\<close>.
\<close>

definition datetime_add :: "datetime \<Rightarrow> int \<Rightarrow> error + datetime" where
  "datetime_add t delta =
     (let r = t + delta in
      if 0 \<le> r \<and> r < MAXORDINAL * usec_per_day then Inr r else Inl OverflowError)"

text \<open>\<open>datetime.datetime.combine(t, datetime.time(0, 0, 0))\<close>: midnight of the date of \<open>t\<close>.\<close>

definition combine_midnight :: "datetime \<Rightarrow> datetime" where
  "combine_midnight t = t - t mod usec_per_day"

definition make_aware :: "datetime \<Rightarrow> datetime" where
  "make_aware t = t"

definition make_naive :: "datetime \<Rightarrow> datetime" where
  "make_naive t = t"

text \<open>
  The fields \<open>year\<close> and \<open>month\<close> of a \<open>datetime\<close>, as the \<open>datetime\<close> module
  computes them from the day number (400-, 100-, 4- and 1-year cycles).
\<close>

definition ord2ym :: "int \<Rightarrow> int \<times> int" where
  "ord2ym ordinal =
     (let n = ordinal - 1;
          n400 = n div 146097; n = n mod 146097;
          n100 = n div 36524; n = n mod 36524;
          n4 = n div 1461; n = n mod 1461;
          n1 = n div 365; n = n mod 365;
          year = n400 * 400 + 1 + n100 * 100 + n4 * 4 + n1
      in if n1 = 4 \<or> n100 = 4 then (year - 1, 12)
         else let month = (n + 50) div 32;
                  preceding = days_before_month year month
              in if preceding > n then (year, month - 1) else (year, month))"

definition year_of :: "datetime \<Rightarrow> int" where
  "year_of t = fst (ord2ym (t div usec_per_day + 1))"

definition month_of :: "datetime \<Rightarrow> int" where
  "month_of t = snd (ord2ym (t div usec_per_day + 1))"

subsection \<open>The clock\<close>

text \<open>
  \<open>timezone.now()\<close> reads the clock, and two readings may differ. The readings are given
  by the environment as a sequence; the world counts the readings taken so far and logs
  the calls to the external services.
\<close>

datatype event =
    Nova_usage_list datetime datetime
  | Nova_usage_get string datetime datetime
  | Keystone_tenant_get string
  | Messages_info string
  | Exceptions_handle string

record world =
  ticks :: nat
  events :: "event list"

definition timezone_now :: "(nat \<Rightarrow> datetime) \<Rightarrow> world \<Rightarrow> datetime \<times> world" where
  "timezone_now clk w = (clk (ticks w), w\<lparr>ticks := Suc (ticks w)\<rparr>)"

subsection \<open>\<open>BaseUsage.get_start\<close> and \<open>BaseUsage.get_end\<close>\<close>

definition get_start :: "int \<Rightarrow> int \<Rightarrow> int \<Rightarrow> error + datetime" where
  "get_start year month day =
     (case datetime_new year month day of
        Inl e \<Rightarrow> Inl e
      | Inr start \<Rightarrow> Inr (make_aware start))"

definition get_end ::
  "(nat \<Rightarrow> datetime) \<Rightarrow> int \<Rightarrow> int \<Rightarrow> int \<Rightarrow> world \<Rightarrow> (error + datetime) \<times> world" where
  "get_end clk year month day w =
     (case monthrange_days year month of
        Inl e \<Rightarrow> (Inl e, w)
      | Inr days_in_month \<Rightarrow>
          (let period = timedelta_days days_in_month in
           case get_start year month day of
             Inl e \<Rightarrow> (Inl e, w)
           | Inr start \<Rightarrow>
               (case datetime_add start period of
                  Inl e \<Rightarrow> (Inl e, w)
                | Inr end_time \<Rightarrow>
                    (let date_end = make_aware (combine_midnight end_time);
                         (now1, w1) = timezone_now clk w
                     in if date_end > now1
                        then (let (now2, w2) = timezone_now clk w1 in (Inr now2, w2))
                        else (Inr date_end, w1)))))"

text \<open>
  The years and months for which the end of the month is still a \<open>datetime\<close>
  (December 9999 ends in year 10000), and the midnight that ends the month.
\<close>

definition valid_year_month :: "int \<Rightarrow> int \<Rightarrow> bool" where
  "valid_year_month year month \<longleftrightarrow>
     1 \<le> year \<and> year \<le> 9999 \<and> 1 \<le> month \<and> month \<le> 12 \<and> (year, month) \<noteq> (9999, 12)"

definition month_end :: "int \<Rightarrow> int \<Rightarrow> datetime" where
  "month_end year month = (ymd2ord year month 1 - 1 + mdays year month) * usec_per_day"

subsection \<open>The environment of a usage report\<close>

text \<open>
  A usage object of the compute API carries the attribute \<open>server_usages\<close>, a list of
  dictionaries, or lacks it (\<open>None\<close> here). A tenant of the identity API has a name.
\<close>

type_synonym server_usage = "string \<rightharpoonup> pyval"

record usage =
  tenant_id :: string
  server_usages :: "server_usage list option"

record tenant =
  name :: string

text \<open>
  \<open>forms.DateForm\<close> is built either from the GET parameters (bound) or from initial
  values for month and year (not bound).
\<close>

datatype date_form =
    Bound_form "(string \<times> string) list"
  | Unbound_form int int

text \<open>
  What the module calls and does not define:
  \<^item> \<open>clock\<close>: the successive readings of \<open>timezone.now()\<close>;
  \<^item> \<open>nova_usage_list\<close>, \<open>nova_usage_get\<close>, \<open>keystone_tenant_get\<close>: the API clients,
    which return a value or raise;
  \<^item> \<open>get_summary\<close>: the items of the dictionary that \<open>get_summary()\<close> of a usage
    object returns, in the order of \<open>items()\<close>;
  \<^item> \<open>handle\<close>: \<open>exceptions.handle(request, message)\<close> for the exception being
    handled, \<open>None\<close> when it returns and the exception it raises otherwise;
  \<^item> \<open>form_is_valid\<close>, \<open>cleaned_data\<close>: validation of a \<open>DateForm\<close>;
  \<^item> \<open>py_int\<close>: the builtin \<open>int\<close>.
\<close>

record 'v env =
  clock :: "nat \<Rightarrow> datetime"
  nova_usage_list :: "datetime \<Rightarrow> datetime \<Rightarrow> error + usage list"
  nova_usage_get :: "string \<Rightarrow> datetime \<Rightarrow> datetime \<Rightarrow> error + usage"
  keystone_tenant_get :: "string \<Rightarrow> error + tenant"
  get_summary :: "usage \<Rightarrow> (string \<times> 'v) list"
  handle :: "error \<Rightarrow> error option"
  form_is_valid :: "date_form \<Rightarrow> bool"
  cleaned_data :: "date_form \<Rightarrow> string \<rightharpoonup> pyval"
  py_int :: "pyval \<Rightarrow> error + int"

definition log_event :: "event \<Rightarrow> world \<Rightarrow> world" where
  "log_event e w = w\<lparr>events := events w @ [e]\<rparr>"

subsection \<open>\<open>BaseUsage\<close> and its subclasses\<close>

text \<open>
  The three classes share their attributes; \<open>cls\<close> tells which \<open>get_usage_list\<close> and
  which \<open>show_terminated\<close> an object has. \<open>start_attr\<close>, \<open>end_attr\<close>, \<open>form\<close> and
  \<open>project_name\<close> are \<open>None\<close> until the attribute is set (\<open>hasattr\<close> is false).
\<close>

datatype usage_class = BaseUsage | GlobalUsage | ProjectUsage

record 'v usage_obj =
  cls :: usage_class
  project_id :: string
  request_GET :: "(string \<times> string) list"
  summary :: "string \<rightharpoonup> 'v"
  usage_list :: "usage list"
  start_attr :: "datetime option"
  end_attr :: "datetime option"
  form :: "date_form option"
  project_name :: "string option"

fun show_terminated :: "usage_class \<Rightarrow> bool" where
  "show_terminated BaseUsage = False"
| "show_terminated GlobalUsage = True"
| "show_terminated ProjectUsage = False"

text \<open>\<open>__init__(self, request, project_id=None)\<close>.\<close>

definition BaseUsage_init ::
  "usage_class \<Rightarrow> (string \<times> string) list \<Rightarrow> string \<Rightarrow> string option \<Rightarrow> 'v usage_obj" where
  "BaseUsage_init c GET user_tenant_id pid =
     \<lparr>cls = c,
      project_id = (case pid of None \<Rightarrow> user_tenant_id
                    | Some p \<Rightarrow> if p \<noteq> [] then p else user_tenant_id),
      request_GET = GET, summary = Map.empty, usage_list = [],
      start_attr = None, end_attr = None, form = None, project_name = None\<rparr>"

text \<open>The property \<open>today\<close>: a reading of the clock.\<close>

definition today :: "'v env \<Rightarrow> world \<Rightarrow> datetime \<times> world" where
  "today E w = timezone_now (clock E) w"

text \<open>\<open>request.GET.get(key)\<close>: the last value given for the key.\<close>

definition GET_get :: "(string \<times> string) list \<Rightarrow> string \<Rightarrow> string option" where
  "GET_get GET key =
     (case filter (\<lambda>p. fst p = key) GET of [] \<Rightarrow> None | x # xs \<Rightarrow> Some (snd (last (x # xs))))"

definition get_form :: "'v env \<Rightarrow> 'v usage_obj \<Rightarrow> world \<Rightarrow> date_form \<times> 'v usage_obj \<times> world" where
  "get_form E self w =
     (case form self of
        Some f \<Rightarrow> (f, self, w)
      | None \<Rightarrow>
          if list_ex (\<lambda>key. key \<in> set [''month'', ''year'']) (map fst (request_GET self))
          then (let f = Bound_form (request_GET self) in (f, self\<lparr>form := Some f\<rparr>, w))
          else (let (t1, w1) = today E w;
                    (t2, w2) = today E w1;
                    f = Unbound_form (month_of t1) (year_of t2)
                in (f, self\<lparr>form := Some f\<rparr>, w2)))"

text \<open>\<open>int(form.cleaned_data[key])\<close>.\<close>

definition cleaned_int :: "'v env \<Rightarrow> date_form \<Rightarrow> string \<Rightarrow> error + int" where
  "cleaned_int E f key =
     (case cleaned_data E f key of None \<Rightarrow> Inl KeyError | Some v \<Rightarrow> py_int E v)"

text \<open>
  The value of \<open>args\<close> in \<open>get_date_range\<close>: year and month of today, replaced by
  those of the form when it is valid.
\<close>

definition date_range_args ::
  "'v env \<Rightarrow> 'v usage_obj \<Rightarrow> world \<Rightarrow> (error + int \<times> int) \<times> 'v usage_obj \<times> world" where
  "date_range_args E self w =
     (let (t1, w1) = today E w;
          (t2, w2) = today E w1;
          args = (year_of t1, month_of t2);
          (f, self1, w3) = get_form E self w2
      in if form_is_valid E f
         then (case cleaned_int E f ''year'' of
                 Inl e \<Rightarrow> (Inl e, self1, w3)
               | Inr y \<Rightarrow>
                   (case cleaned_int E f ''month'' of
                      Inl e \<Rightarrow> (Inl e, self1, w3)
                    | Inr m \<Rightarrow> (Inr (y, m), self1, w3)))
         else (Inr args, self1, w3))"

definition get_date_range ::
  "'v env \<Rightarrow> 'v usage_obj \<Rightarrow> world \<Rightarrow> (error + datetime \<times> datetime) \<times> 'v usage_obj \<times> world" where
  "get_date_range E self w =
     (if start_attr self = None \<or> end_attr self = None
      then (case date_range_args E self w of
              (Inl e, self1, w1) \<Rightarrow> (Inl e, self1, w1)
            | (Inr (year, month), self1, w1) \<Rightarrow>
                (case get_start year month 1 of
                   Inl e \<Rightarrow> (Inl e, self1, w1)
                 | Inr start \<Rightarrow>
                     (let self2 = self1\<lparr>start_attr := Some start\<rparr> in
                      case get_end (clock E) year month 1 w1 of
                        (Inl e, w2) \<Rightarrow> (Inl e, self2, w2)
                      | (Inr end_time, w2) \<Rightarrow>
                          (Inr (start, end_time), self2\<lparr>end_attr := Some end_time\<rparr>, w2))))
      else (Inr (the (start_attr self), the (end_attr self)), self, w))"

subsection \<open>\<open>get_usage_list\<close>\<close>

text \<open>
  \<open>now - datetime.timedelta(seconds=server_uptime)\<close>: the uptime must be a number, and
  the result must be a \<open>datetime\<close>.
\<close>

definition uptime_at :: "datetime \<Rightarrow> pyval \<Rightarrow> error + datetime" where
  "uptime_at now server_uptime =
     (case server_uptime of
        PInt n \<Rightarrow> datetime_add now (- timedelta_seconds n)
      | PBool b \<Rightarrow> datetime_add now (- timedelta_seconds (if b then 1 else 0))
      | _ \<Rightarrow> Inl TypeError)"

text \<open>
  The loop over \<open>usage.server_usages\<close>, with the lists \<open>instances\<close> and
  \<open>terminated_instances\<close> as accumulators.
\<close>

fun server_usages_loop ::
  "datetime \<Rightarrow> bool \<Rightarrow> server_usage list \<Rightarrow> server_usage list \<Rightarrow> server_usage list
     \<Rightarrow> error + server_usage list \<times> server_usage list" where
  "server_usages_loop now show_term [] instances terminated_instances =
     Inr (instances, terminated_instances)"
| "server_usages_loop now show_term (server_usage # rest) instances terminated_instances =
     (case server_usage ''uptime'' of
        None \<Rightarrow> Inl KeyError
      | Some server_uptime \<Rightarrow>
          (case uptime_at now server_uptime of
             Inl e \<Rightarrow> Inl e
           | Inr total_uptime \<Rightarrow>
               (let su = server_usage(''uptime_at'' \<mapsto> PTime total_uptime) in
                case su ''ended_at'' of
                  None \<Rightarrow> Inl KeyError
                | Some ended_at \<Rightarrow>
                    if py_truthy ended_at \<and> \<not> show_term
                    then server_usages_loop now show_term rest
                           instances (terminated_instances @ [su])
                    else server_usages_loop now show_term rest
                           (instances @ [su]) terminated_instances)))"

text \<open>
  \<open>self.request.GET.get('show_terminated', self.show_terminated)\<close>: the text of the
  parameter when the request has it, the class attribute otherwise.
\<close>

definition GET_show_terminated :: "'v usage_obj \<Rightarrow> pyval" where
  "GET_show_terminated self =
     (case GET_get (request_GET self) ''show_terminated'' of
        Some v \<Rightarrow> PStr v
      | None \<Rightarrow> PBool (show_terminated (cls self)))"

definition ProjectUsage_get_usage_list ::
  "'v env \<Rightarrow> 'v usage_obj \<Rightarrow> datetime \<Rightarrow> datetime \<Rightarrow> world
     \<Rightarrow> (error + usage list) \<times> 'v usage_obj \<times> world" where
  "ProjectUsage_get_usage_list E self start end_time w =
     (let show_term = GET_show_terminated self;
          w1 = log_event (Nova_usage_get (project_id self) start end_time) w
      in case nova_usage_get E (project_id self) start end_time of
           Inl e \<Rightarrow> (Inl e, self, w1)
         | Inr u \<Rightarrow>
             (let w2 = log_event (Keystone_tenant_get (project_id self)) w1 in
              case keystone_tenant_get E (project_id self) of
                Inl e \<Rightarrow> (Inl e, self, w2)
              | Inr project \<Rightarrow>
                  (let self1 = self\<lparr>project_name := Some (name project)\<rparr> in
                   case server_usages u of
                     None \<Rightarrow> (Inr [u\<lparr>server_usages := Some []\<rparr>], self1, w2)
                   | Some sus \<Rightarrow>
                       (let (now, w3) = today E w2 in
                        case server_usages_loop now (py_truthy show_term) sus [] [] of
                          Inl e \<Rightarrow> (Inl e, self1, w3)
                        | Inr (instances, terminated_instances) \<Rightarrow>
                            (Inr [u\<lparr>server_usages := Some instances\<rparr>], self1, w3)))))"

definition GlobalUsage_get_usage_list ::
  "'v env \<Rightarrow> 'v usage_obj \<Rightarrow> datetime \<Rightarrow> datetime \<Rightarrow> world
     \<Rightarrow> (error + usage list) \<times> 'v usage_obj \<times> world" where
  "GlobalUsage_get_usage_list E self start end_time w =
     (nova_usage_list E start end_time, self, log_event (Nova_usage_list start end_time) w)"

text \<open>The method \<open>get_usage_list\<close> of an object, by its class.\<close>

definition get_usage_list ::
  "'v env \<Rightarrow> 'v usage_obj \<Rightarrow> datetime \<Rightarrow> datetime \<Rightarrow> world
     \<Rightarrow> (error + usage list) \<times> 'v usage_obj \<times> world" where
  "get_usage_list E self start end_time w =
     (case cls self of
        BaseUsage \<Rightarrow> (Inl NotImplementedError, self, w)
      | GlobalUsage \<Rightarrow> GlobalUsage_get_usage_list E self start end_time w
      | ProjectUsage \<Rightarrow> ProjectUsage_get_usage_list E self start end_time w)"

subsection \<open>\<open>summarize\<close>\<close>

text \<open>
  \<open>self.summary.setdefault(key, 0); self.summary[key] += value\<close>. The values of a
  summary are numbers of any kind, integers or floats: a type \<open>'v\<close> with its own \<open>0\<close>
  and \<open>+\<close>, of which no law is assumed, so that an addition that is not associative,
  as that of floats, is covered.
\<close>

definition add_item ::
  "(string \<rightharpoonup> 'v::{zero,plus}) \<Rightarrow> string \<times> 'v \<Rightarrow> (string \<rightharpoonup> 'v)" where
  "add_item summ item =
     (let key = fst item; v = snd item;
          summ1 = (case summ key of None \<Rightarrow> summ(key \<mapsto> 0) | Some old \<Rightarrow> summ)
      in summ1(key \<mapsto> the (summ1 key) + v))"

text \<open>The two nested loops at the end of \<open>summarize\<close>.\<close>

definition add_summaries ::
  "('v::{zero,plus}) env \<Rightarrow> 'v usage_obj \<Rightarrow> 'v usage_obj" where
  "add_summaries E self =
     self\<lparr>summary :=
       foldl (\<lambda>summ project_usage. foldl add_item summ (get_summary E project_usage))
         (summary self) (usage_list self)\<rparr>"

definition unable_msg :: string where
  "unable_msg = ''Unable to retrieve usage information.''"

definition future_msg :: string where
  "future_msg = ''You are viewing data for the future, which may or may not exist.''"

text \<open>
  \<open>start <= end <= self.today\<close> reads the clock only when \<open>start <= end\<close>. The result of
  \<open>summarize\<close> is the exception that leaves it, if any, with the object and the world as
  they are then.
\<close>

definition range_in_past :: "'v env \<Rightarrow> datetime \<Rightarrow> datetime \<Rightarrow> world \<Rightarrow> bool \<times> world" where
  "range_in_past E start end_time w =
     (if start \<le> end_time
      then (let (now, w1) = today E w in (end_time \<le> now, w1))
      else (False, w))"

definition summarize ::
  "('v::{zero,plus}) env \<Rightarrow> 'v usage_obj \<Rightarrow> datetime \<Rightarrow> datetime \<Rightarrow> world
     \<Rightarrow> error option \<times> 'v usage_obj \<times> world" where
  "summarize E self start end_time w =
     (let (ok, w1) = range_in_past E start end_time w in
      if ok
      then (let start1 = make_naive start;
                end1 = make_naive end_time
            in case get_usage_list E self start1 end1 w1 of
                 (Inr ul, self1, w2) \<Rightarrow> (None, add_summaries E (self1\<lparr>usage_list := ul\<rparr>), w2)
               | (Inl e, self1, w2) \<Rightarrow>
                   (let w3 = log_event (Exceptions_handle unable_msg) w2 in
                    case handle E e of
                      Some e' \<Rightarrow> (Some e', self1, w3)
                    | None \<Rightarrow> (None, add_summaries E self1, w3)))
      else (None, add_summaries E self, log_event (Messages_info future_msg) w1))"

subsection \<open>The aggregate as the specification describes it\<close>

text \<open>
  The keys that appear in the summary of some project usage of a list; the values of
  one key over all project usages of the list, in the order of the list; and their sum
  starting from a given value, added one after the other as the loop does. For integers
  that is the starting value plus the total of the values.
\<close>

definition summary_keys :: "'v env \<Rightarrow> usage list \<Rightarrow> string set" where
  "summary_keys E ul = set (map fst (concat (map (get_summary E) ul)))"

definition key_values :: "'v env \<Rightarrow> usage list \<Rightarrow> string \<Rightarrow> 'v list" where
  "key_values E ul key =
     map snd (filter (\<lambda>item. fst item = key) (concat (map (get_summary E) ul)))"

definition sum_from :: "'v::plus \<Rightarrow> 'v list \<Rightarrow> 'v" where
  "sum_from start vs = foldl (+) start vs"

definition key_total :: "int env \<Rightarrow> usage list \<Rightarrow> string \<Rightarrow> int" where
  "key_total E ul key = sum_list (key_values E ul key)"

definition previous_value :: "(string \<rightharpoonup> 'v::zero) \<Rightarrow> string \<Rightarrow> 'v" where
  "previous_value summ key = (case summ key of None \<Rightarrow> 0 | Some v \<Rightarrow> v)"

subsection \<open>The server usages as the specification describes them\<close>

text \<open>
  A server usage is terminated when its \<open>ended_at\<close> is truthy. A retained entry gains
  the key \<open>uptime_at\<close>, the time \<open>now\<close> minus its \<open>uptime\<close> in seconds. An entry is well
  formed when it has a numeric \<open>uptime\<close> that leaves \<open>uptime_at\<close> within the range of
  \<open>datetime\<close>, and a key \<open>ended_at\<close>.
\<close>

definition ended :: "server_usage \<Rightarrow> bool" where
  "ended su = (case su ''ended_at'' of Some v \<Rightarrow> py_truthy v | None \<Rightarrow> False)"

definition uptime_seconds :: "server_usage \<Rightarrow> int option" where
  "uptime_seconds su =
     (case su ''uptime'' of
        Some (PInt n) \<Rightarrow> Some n
      | Some (PBool b) \<Rightarrow> Some (if b then 1 else 0)
      | _ \<Rightarrow> None)"

definition with_uptime_at :: "datetime \<Rightarrow> server_usage \<Rightarrow> server_usage" where
  "with_uptime_at now su =
     su(''uptime_at'' \<mapsto> PTime (now - the (uptime_seconds su) * 1000000))"

definition well_formed_usage :: "datetime \<Rightarrow> server_usage \<Rightarrow> bool" where
  "well_formed_usage now su =
     (case uptime_seconds su of
        None \<Rightarrow> False
      | Some n \<Rightarrow> 0 \<le> now - n * 1000000 \<and> now - n * 1000000 < MAXORDINAL * usec_per_day
                 \<and> su ''ended_at'' \<noteq> None)"

definition retained_usages :: "datetime \<Rightarrow> bool \<Rightarrow> server_usage list \<Rightarrow> server_usage list" where
  "retained_usages now show_term sus =
     map (with_uptime_at now) (filter (\<lambda>su. show_term \<or> \<not> ended su) sus)"

subsection \<open>A concrete environment\<close>

text \<open>
  An environment used to run the model on concrete inputs: the clock starts in March
  2013 and advances by a microsecond at each reading; the compute API lists two project
  usages for a range that ends early enough and fails for a later one; each usage
  summarises to one instance and two VCPUs; \<open>exceptions.handle\<close> returns.
\<close>

definition usage0 :: usage where
  "usage0 = \<lparr>tenant_id = ''t1'', server_usages = None\<rparr>"

definition env0 :: "int env" where
  "env0 =
     \<lparr>clock = (\<lambda>n. 63500000000000000 + int n),
      nova_usage_list = (\<lambda>start end_time.
         if end_time \<le> 63450000000000000 then Inr [usage0, usage0] else Inl (ApiError ''down'')),
      nova_usage_get = (\<lambda>pid start end_time. Inr usage0),
      keystone_tenant_get = (\<lambda>pid. Inr \<lparr>name = ''demo''\<rparr>),
      get_summary = (\<lambda>u. [(''instances'', 1), (''vcpus'', 2)]),
      handle = (\<lambda>e. None),
      form_is_valid = (\<lambda>f. False),
      cleaned_data = (\<lambda>f. Map.empty),
      py_int = (\<lambda>v. case v of PInt n \<Rightarrow> Inr n | _ \<Rightarrow> Inl TypeError)\<rparr>"

definition world0 :: world where
  "world0 = \<lparr>ticks = 0, events = []\<rparr>"

definition global0 :: "int usage_obj" where
  "global0 = BaseUsage_init GlobalUsage [] ''t1'' None"

text \<open>
  The object and the world after a first call of \<open>summarize\<close> on a fresh \<open>GlobalUsage\<close>,
  for a range that the API answers.
\<close>

definition global1 :: "int usage_obj" where
  "global1 = fst (snd (summarize env0 global0 63400000000000000 63450000000000000 world0))"

definition world1 :: world where
  "world1 = snd (snd (summarize env0 global0 63400000000000000 63450000000000000 world0))"

text \<open>
  A project with one running and one terminated server, and the \<open>ProjectUsage\<close> of a
  request without parameters.
\<close>

definition running0 :: server_usage where
  "running0 = [''uptime'' \<mapsto> PInt 60, ''ended_at'' \<mapsto> PNone]"

definition terminated0 :: server_usage where
  "terminated0 = [''uptime'' \<mapsto> PInt 120, ''ended_at'' \<mapsto> PStr ''2013-03-01T00:00:00'']"

definition env1 :: "int env" where
  "env1 = env0\<lparr>nova_usage_get := (\<lambda>pid start end_time.
             Inr \<lparr>tenant_id = pid, server_usages = Some [running0, terminated0]\<rparr>)\<rparr>"

definition project0 :: "int usage_obj" where
  "project0 = BaseUsage_init ProjectUsage [] ''t1'' None"

text \<open>
  An environment whose bound forms are valid and clean to the text of the GET
  parameters, with \<open>int\<close> reading the two texts used below, and the \<open>GlobalUsage\<close> of a
  request for May 2012.
\<close>

definition env2 :: "int env" where
  "env2 = env0
     \<lparr>form_is_valid := (\<lambda>f. case f of Bound_form g \<Rightarrow> True | Unbound_form m y \<Rightarrow> False),
      cleaned_data := (\<lambda>f. case f of
         Bound_form g \<Rightarrow> (\<lambda>key. map_option PStr (map_of g key))
       | Unbound_form m y \<Rightarrow> Map.empty),
      py_int := (\<lambda>v. case v of
         PInt n \<Rightarrow> Inr n
       | PStr s \<Rightarrow> if s = ''2012'' then Inr 2012 else if s = ''5'' then Inr 5 else Inl ValueError
       | _ \<Rightarrow> Inl TypeError)\<rparr>"

definition bound0 :: "int usage_obj" where
  "bound0 = BaseUsage_init GlobalUsage [(''month'', ''5''), (''year'', ''2012'')] ''t1'' None"

section \<open>Properties of the table actions\<close>

text \<open>
  C3. For every cluster id and template id, \<open>TerminateCluster.action\<close> performs exactly
  one client call, \<open>terminate_cluster(cluster_id)\<close>, and \<open>DeleteTemplate.action\<close> performs
  exactly one client call, \<open>delete_template(template_id)\<close>; neither has any other effect.
\<close>

theorem actions_delegate_to_client:
  "client_calls (TerminateCluster_action request cluster_id w)
     = client_calls w @ [Terminate_cluster cluster_id]
   \<and> flash_messages (TerminateCluster_action request cluster_id w) = flash_messages w
   \<and> panel_world.more (TerminateCluster_action request cluster_id w) = panel_world.more w
   \<and> client_calls (DeleteTemplate_action request template_id w)
     = client_calls w @ [Delete_template template_id]
   \<and> flash_messages (DeleteTemplate_action request template_id w) = flash_messages w
   \<and> panel_world.more (DeleteTemplate_action request template_id w) = panel_world.more w"
  by (simp add: TerminateCluster_action_def DeleteTemplate_action_def
        terminate_cluster_def delete_template_def)

text \<open>
  C4, as stated: executing \<open>CreateCluster.action\<close> invokes some operation of the
  cluster-management client. It does not: on an empty client log, the log is still
  empty after the action.
\<close>

theorem CreateCluster_action_no_call:
  "client_calls (CreateCluster_action [] ''c1''
      \<lparr>client_calls = [], flash_messages = []\<rparr>) = []"
  by (simp add: CreateCluster_action_def)

text \<open>
  C4, amended: \<open>CreateCluster\<close> is a link action whose target is the create-cluster
  form; its own \<open>action\<close> method is a no-op that leaves the client log, and everything
  else, as it was.
\<close>

theorem CreateCluster_action_noop:
  "CreateCluster_action request datum_id w = w
   \<and> CreateCluster_url = ''horizon:project:hadoop:create_cluster''"
  by (simp add: CreateCluster_action_def CreateCluster_url_def)

text \<open>
  C10. \<open>TerminateInstance.allowed(request, instance)\<close> is \<open>True\<close> exactly when the
  instance is \<open>None\<close> or otherwise falsy, or its status is neither \<open>PAUSED\<close> nor
  \<open>SUSPENDED\<close>; with no instance given it is always \<open>True\<close>.
\<close>

theorem TerminateInstance_allowed_iff:
  "TerminateInstance_allowed request PyNone
   \<and> (TerminateInstance_allowed request (PyObj b i)
        = (\<not> truthy (PyObj b i) \<or> (status i \<noteq> ''PAUSED'' \<and> status i \<noteq> ''SUSPENDED'')))"
  by simp

theorem TerminateInstance_allowed_iff_witness:
  "\<not> truthy (PyObj False \<lparr>status = ''PAUSED''\<rparr>)
   \<and> TerminateInstance_allowed [] (PyObj False \<lparr>status = ''PAUSED''\<rparr>)
   \<and> \<not> TerminateInstance_allowed [] (PyObj True \<lparr>status = ''PAUSED''\<rparr>)
   \<and> TerminateInstance_allowed [] (PyObj True \<lparr>status = ''ACTIVE''\<rparr>)"
  using TerminateInstance_allowed_iff [of "[]" False "\<lparr>status = ''PAUSED''\<rparr>"]
    TerminateInstance_allowed_iff [of "[]" True "\<lparr>status = ''PAUSED''\<rparr>"]
    TerminateInstance_allowed_iff [of "[]" True "\<lparr>status = ''ACTIVE''\<rparr>"]
  by simp

section \<open>Properties of the CSV responses\<close>

lemma write_wf:
  "pos sio = length (buf sio) \<Longrightarrow>
   StringIO_write s sio = \<lparr>buf = buf sio @ s, pos = length (buf sio) + length s\<rparr>"
  by (simp add: StringIO_write_def Let_def)

lemma wf_appended [simp]: "wf (appended self s)"
  by (simp add: wf_def appended_def)

lemma appended_fields [simp]:
  "is_dict (appended self s) = is_dict self"
  "fieldnames (appended self s) = fieldnames self"
  "buf (out (appended self s)) = buf (out self) @ s"
  by (simp_all add: appended_def)

lemma appended_appended: "appended (appended self s) t = appended self (s @ t)"
  by (simp add: appended_def)

lemma appended_Nil: "wf self \<Longrightarrow> appended self [] = self"
  by (simp add: appended_def wf_def)

lemma row_text_appended [simp]:
  "row_text fmt encode (appended self s) = row_text fmt encode self"
  by (rule ext) (simp add: row_text_def)

lemma zip_keys_ok: "filter (\<lambda>k. k \<notin> set ks) (map fst (zip ks vs)) = []"
  by (auto simp: filter_empty_conv dest: set_zip_leftD)

lemma write_csv_row_wf:
  "wf self \<Longrightarrow> write_csv_row fmt encode args self = Inr (appended self (row_text fmt encode self args))"
  by (simp add: write_csv_row_def DictWriter_writerow_def zip_keys_ok Let_def
        writer_writerow_def write_wf wf_def appended_def row_text_def)

lemma write_rows_wf:
  "wf self \<Longrightarrow> write_rows fmt encode rows self
     = Inr (appended self (concat (map (row_text fmt encode self) rows)))"
proof (induction rows arbitrary: self)
  case Nil
  then show ?case by (simp add: appended_Nil)
next
  case (Cons row rows)
  then show ?case by (simp add: write_csv_row_wf appended_appended)
qed

lemma map_of_same:
  "\<forall>p \<in> set al. fst p = snd p \<Longrightarrow> k \<in> fst ` set al \<Longrightarrow> map_of al k = Some k"
  by (induction al) auto

lemma dict_get_zip_same: "k \<in> set ks \<Longrightarrow> dict_get (zip ks ks) k d = k"
proof -
  assume k: "k \<in> set ks"
  have 1: "\<forall>p \<in> set (rev (zip ks ks)). fst p = snd p"
    by (auto simp: set_zip)
  have "(k, k) \<in> set (zip ks ks)"
    using k by (auto simp: set_zip in_set_conv_nth)
  then have 2: "k \<in> fst ` set (rev (zip ks ks))"
    by force
  show ?thesis
    using map_of_same [OF 1 2] by (simp add: dict_get_def)
qed

lemma header_row: "map (\<lambda>key. dict_get (zip ks ks) key []) ks = ks"
  by (simp add: dict_get_zip_same map_idI)

lemma write_csv_header_wf:
  "wf self \<Longrightarrow> write_csv_header fmt self
     = Inr (appended self (if is_dict self then fmt (fieldnames self) else []))"
  by (simp add: write_csv_header_def DictWriter_writerow_def zip_keys_ok Let_def
        writer_writerow_def write_wf wf_def appended_def header_row)

lemma write_header_text_wf:
  "wf self \<Longrightarrow> write_header_text encode header self = appended self (header_bytes encode header)"
  by (auto simp: write_header_text_def header_bytes_def appended_Nil write_wf wf_def appended_def
      split: option.splits)

lemma wf_init [simp]: "wf (CsvDataMixin_init encode columns)"
  by (simp add: wf_def CsvDataMixin_init_def StringIO_def split: option.splits)

lemma buffer_wf:
  "buffer self = (buf (out self), self\<lparr>out := StringIO\<rparr>)"
  by (simp add: buffer_def StringIO_getvalue_def StringIO_truncate_def StringIO_def)

lemma stream_rows_empty:
  "out self = StringIO \<Longrightarrow>
   stream_rows fmt encode rows self = Inr (map (row_text fmt encode self) rows)"
proof (induction rows)
  case Nil
  then show ?case by simp
next
  case (Cons row rows)
  have wf: "wf self" using Cons.prems by (simp add: wf_def StringIO_def)
  have restore: "(appended self s)\<lparr>out := \<lparr>buf = [], pos = 0\<rparr>\<rparr> = self" for s
    using Cons.prems by (simp add: appended_def StringIO_def)
  show ?case
    using Cons by (simp add: write_csv_row_wf [OF wf] buffer_wf restore StringIO_def)
qed

lemma row_text_init:
  "row_text fmt encode (CsvDataMixin_init encode columns)
     = csv_row_text fmt encode columns"
  by (rule ext) (simp add: row_text_def csv_row_text_def CsvDataMixin_init_def split: option.splits)

lemma row_text_out [simp]:
  "row_text fmt encode (self\<lparr>out := sio\<rparr>) = row_text fmt encode self"
  by (rule ext) (simp add: row_text_def)

lemma init_fields:
  "buf (out (CsvDataMixin_init encode columns)) = []"
  "is_dict (CsvDataMixin_init encode columns) = (columns \<noteq> None)"
  "fieldnames (CsvDataMixin_init encode columns)
     = (case columns of None \<Rightarrow> [] | Some cols \<Rightarrow> map encode cols)"
  by (simp_all add: CsvDataMixin_init_def StringIO_def split: option.splits)

lemma buffered_content:
  "BaseCsvResponse_init fmt encode columns header rows
     = Inr (spec_csv_content fmt encode columns header rows)"
  by (cases columns)
     (simp_all add: BaseCsvResponse_init_def Let_def write_header_text_wf write_csv_header_wf
      write_rows_wf StringIO_getvalue_def row_text_init init_fields
      spec_csv_content_def header_bytes_def)

lemma streamed_content:
  "map_sum id concat (get_content fmt encode columns header rows)
     = Inr (spec_csv_content fmt encode columns header rows)"
  by (cases columns)
     (simp_all add: get_content_def Let_def write_header_text_wf write_csv_header_wf
      buffer_wf stream_rows_empty row_text_init init_fields
      spec_csv_content_def header_bytes_def)

text \<open>
  C2. For the same header text, column definition and rows, the generator
  \<open>get_content\<close> runs to its end without raising, and the concatenation of its chunks is
  the content that \<open>BaseCsvResponse.__init__\<close> produces, which is the optional encoded
  header, the CSV header row when columns are defined, and one CSV row per element of
  \<open>get_row_data\<close>, in order.
\<close>

theorem csv_streamed_equals_buffered:
  "map_sum id concat (get_content fmt encode columns header rows)
     = BaseCsvResponse_init fmt encode columns header rows
   \<and> BaseCsvResponse_init fmt encode columns header rows
     = Inr (spec_csv_content fmt encode columns header rows)"
  by (simp add: buffered_content streamed_content)

section \<open>Properties of the date range\<close>

lemma month_cases:
  "1 \<le> (month::int) \<Longrightarrow> month \<le> 12 \<Longrightarrow>
   month \<in> {1, 2, 3, 4, 5, 6, 7, 8, 9, 10, 11, 12}"
  by simp arith

lemma days_through_month:
  assumes "1 \<le> month" "month \<le> 12"
  shows "0 \<le> days_before_month year month"
    and "1 \<le> mdays year month"
    and "days_before_month year month + mdays year month \<le> 366"
    and "\<not> is_leap year \<Longrightarrow> month \<le> 11 \<Longrightarrow>
           days_before_month year month + mdays year month \<le> 334"
  using month_cases [OF assms]
  by (auto simp: days_before_month_def mdays_def)

lemma days_before_year_bounds:
  "1 \<le> year \<Longrightarrow> 0 \<le> days_before_year year"
  "year \<le> 9998 \<Longrightarrow> days_before_year year \<le> 3651330"
  "days_before_year 9999 = 3651694"
proof -
  define y where "y = year - 1"
  have d4: "4 * (y div 4) \<le> y" and d4': "y - 3 \<le> 4 * (y div 4)"
    and d100: "100 * (y div 100) \<le> y" and d100': "y - 99 \<le> 100 * (y div 100)"
    and d400: "400 * (y div 400) \<le> y" and d400': "y - 399 \<le> 400 * (y div 400)"
    by presburger+
  have eq: "days_before_year year = y * 365 + y div 4 - y div 100 + y div 400"
    by (simp add: days_before_year_def y_def Let_def)
  show "1 \<le> year \<Longrightarrow> 0 \<le> days_before_year year"
    unfolding eq using d4' d100 d400' by (simp add: y_def)
  show "year \<le> 9998 \<Longrightarrow> days_before_year year \<le> 3651330"
    unfolding eq using d4 d100' d400 by (simp add: y_def)
  show "days_before_year 9999 = 3651694"
    by (simp add: days_before_year_def)
qed

lemma not_leap_9999: "\<not> is_leap 9999"
  by (simp add: is_leap_def)

lemma end_in_range:
  assumes "valid_year_month year month"
  shows "datetime_add ((ymd2ord year month 1 - 1) * usec_per_day) (timedelta_days (mdays year month))
     = Inr ((ymd2ord year month 1 - 1 + mdays year month) * usec_per_day)"
proof -
  have m: "1 \<le> month" "month \<le> 12" and y: "1 \<le> year" "year \<le> 9999"
    using assms by (simp_all add: valid_year_month_def)
  note d = days_through_month [OF m, of year]
  have lo: "0 \<le> ymd2ord year month 1 - 1 + mdays year month"
    using d(1,2) days_before_year_bounds(1) [OF y(1)] by (simp add: ymd2ord_def)
  have hi: "ymd2ord year month 1 - 1 + mdays year month < MAXORDINAL"
  proof (cases "year \<le> 9998")
    case True
    then show ?thesis
      using d(3) days_before_year_bounds(2) [OF True] by (simp add: ymd2ord_def MAXORDINAL_def)
  next
    case False
    then have y9: "year = 9999" using y by simp
    then have "month \<le> 11" using assms by (simp add: valid_year_month_def)
    then show ?thesis
      using d(4) not_leap_9999 days_before_year_bounds(3) y9
      by (simp add: ymd2ord_def MAXORDINAL_def)
  qed
  have eq: "(ymd2ord year month 1 - 1) * usec_per_day + timedelta_days (mdays year month)
      = (ymd2ord year month 1 - 1 + mdays year month) * usec_per_day"
    by (simp add: timedelta_days_def algebra_simps)
  have pos: "0 < usec_per_day" by (simp add: usec_per_day_def)
  have "0 \<le> (ymd2ord year month 1 - 1 + mdays year month) * usec_per_day"
    using lo pos by simp
  moreover have "(ymd2ord year month 1 - 1 + mdays year month) * usec_per_day
       < MAXORDINAL * usec_per_day"
    using hi pos by simp
  ultimately show ?thesis
    unfolding datetime_add_def Let_def eq by simp
qed

lemma get_start_first:
  assumes "valid_year_month year month"
  shows "get_start year month 1 = Inr ((ymd2ord year month 1 - 1) * usec_per_day)"
proof -
  have m: "1 \<le> month" "month \<le> 12"
    using assms by (simp_all add: valid_year_month_def)
  show ?thesis
    using assms days_through_month(2) [OF m, of year]
    by (simp add: get_start_def datetime_new_def make_aware_def valid_year_month_def)
qed

lemma combine_midnight_days: "combine_midnight (n * usec_per_day) = n * usec_per_day"
  by (simp add: combine_midnight_def)

lemma get_end_valid:
  assumes "valid_year_month year month"
  shows "get_end clk year month 1 w =
     (if month_end year month > clk (ticks w)
      then (Inr (clk (Suc (ticks w))), w\<lparr>ticks := Suc (Suc (ticks w))\<rparr>)
      else (Inr (month_end year month), w\<lparr>ticks := Suc (ticks w)\<rparr>))"
proof -
  have mr: "monthrange_days year month = Inr (mdays year month)"
    using assms by (simp add: monthrange_days_def valid_year_month_def)
  show ?thesis
    by (simp add: get_end_def mr get_start_first [OF assms] end_in_range [OF assms]
        combine_midnight_days make_aware_def timezone_now_def month_end_def)
qed

lemma get_end_le_sample:
  "get_end clk year month day w = (Inr t, w') \<Longrightarrow>
     ticks w < ticks w' \<and> t \<le> clk (ticks w' - 1)"
  by (auto simp: get_end_def timezone_now_def Let_def split: sum.splits if_splits)

text \<open>
  C8. \<open>get_end(year, month)\<close> never returns a time in the future. Whenever it returns,
  it has read the clock, and the value returned is not later than the last reading taken
  during the call. For every valid year and month it does return: the midnight that ends
  the month when that is not later than the clock, and a fresh reading of the clock
  otherwise.
\<close>

theorem get_end_never_in_future:
  "(\<forall>t w'. get_end clk year month day w = (Inr t, w')
       \<longrightarrow> ticks w < ticks w' \<and> t \<le> clk (ticks w' - 1))
   \<and> (valid_year_month year month \<longrightarrow>
        get_end clk year month 1 w =
          (if month_end year month > clk (ticks w)
           then (Inr (clk (Suc (ticks w))), w\<lparr>ticks := Suc (Suc (ticks w))\<rparr>)
           else (Inr (month_end year month), w\<lparr>ticks := Suc (ticks w)\<rparr>)))"
  using get_end_le_sample [of clk year month day w] get_end_valid [of year month clk w]
  by blast

theorem get_end_never_in_future_witness:
  "valid_year_month 2013 3
   \<and> get_end (\<lambda>n. 63500000000000000 + int n) 2013 3 1 \<lparr>ticks = 0, events = []\<rparr>
       = (Inr 63500000000000001, \<lparr>ticks = 2, events = []\<rparr>)
   \<and> (63500000000000001::int) \<le> (\<lambda>n. 63500000000000000 + int n) (2 - 1)"
  using get_end_never_in_future
    [of "\<lambda>n. 63500000000000000 + int n" 2013 3 1 "\<lparr>ticks = 0, events = []\<rparr>"]
  by (simp add: valid_year_month_def month_end_def ymd2ord_def days_before_year_def
      days_before_month_def mdays_def is_leap_def usec_per_day_def)

section \<open>Properties of \<open>get_date_range\<close>\<close>

lemma get_date_range_cached:
  assumes "start_attr self = Some st" and "end_attr self = Some en"
  shows "get_date_range E self w = (Inr (st, en), self, w)"
  using assms by (simp add: get_date_range_def)

lemma get_date_range_first:
  assumes "start_attr self = None \<or> end_attr self = None"
    and "date_range_args E self w = (Inr (y, m), self1, w1)"
    and "get_start y m 1 = Inr st"
    and "get_end (clock E) y m 1 w1 = (Inr en, w2)"
  shows "get_date_range E self w
           = (Inr (st, en), self1\<lparr>start_attr := Some st, end_attr := Some en\<rparr>, w2)"
  using assms by (auto simp: get_date_range_def)

lemma date_range_args_choice:
  assumes "date_range_args E self w = (Inr (y, m), self1, w1)"
  shows "if form_is_valid E (fst (get_form E self (w\<lparr>ticks := Suc (Suc (ticks w))\<rparr>)))
         then map_option (py_int E)
                (cleaned_data E (fst (get_form E self (w\<lparr>ticks := Suc (Suc (ticks w))\<rparr>)))
                   ''year'') = Some (Inr y)
            \<and> map_option (py_int E)
                (cleaned_data E (fst (get_form E self (w\<lparr>ticks := Suc (Suc (ticks w))\<rparr>)))
                   ''month'') = Some (Inr m)
         else y = year_of (clock E (ticks w)) \<and> m = month_of (clock E (Suc (ticks w)))"
  using assms
  by (auto simp: date_range_args_def cleaned_int_def today_def timezone_now_def Let_def
      split: prod.splits if_splits sum.splits option.splits)

lemma get_form_fresh:
  assumes "form self = None"
  shows "fst (get_form E self w) =
     (if list_ex (\<lambda>key. key = ''month'' \<or> key = ''year'') (map fst (request_GET self))
      then Bound_form (request_GET self)
      else Unbound_form (month_of (clock E (ticks w))) (year_of (clock E (Suc (ticks w)))))"
  using assms by (simp add: get_form_def today_def timezone_now_def Let_def)

text \<open>
  C7. On an object that lacks \<open>start\<close> or \<open>end\<close>, \<open>get_date_range\<close> returns
  \<open>(get_start(y, m, 1), get_end(y, m, 1))\<close> and stores the pair. When the form is valid,
  \<open>y\<close> and \<open>m\<close> are \<open>int\<close> of the entries \<open>year\<close> and \<open>month\<close> of its cleaned data;
  otherwise they are \<open>self.today.year\<close> and \<open>self.today.month\<close>, two successive readings
  of the clock. The form is the one stored on the object, or else the form bound to the
  GET parameters when they name a month or a year, or else the form not bound, with
  today's month and year. Every later call on the object returns the same pair and
  changes neither the object nor the world: it reads no clock and computes nothing.
\<close>

theorem get_date_range_idempotent:
  assumes "start_attr self = None \<or> end_attr self = None"
    and "date_range_args E self w = (Inr (y, m), self1, w1)"
    and "get_start y m 1 = Inr st"
    and "get_end (clock E) y m 1 w1 = (Inr en, w2)"
  shows "get_date_range E self w
           = (Inr (st, en), self1\<lparr>start_attr := Some st, end_attr := Some en\<rparr>, w2)
     \<and> (\<forall>w'. get_date_range E (self1\<lparr>start_attr := Some st, end_attr := Some en\<rparr>) w'
           = (Inr (st, en), self1\<lparr>start_attr := Some st, end_attr := Some en\<rparr>, w'))
     \<and> (if form_is_valid E (fst (get_form E self (w\<lparr>ticks := Suc (Suc (ticks w))\<rparr>)))
         then map_option (py_int E)
                (cleaned_data E (fst (get_form E self (w\<lparr>ticks := Suc (Suc (ticks w))\<rparr>)))
                   ''year'') = Some (Inr y)
            \<and> map_option (py_int E)
                (cleaned_data E (fst (get_form E self (w\<lparr>ticks := Suc (Suc (ticks w))\<rparr>)))
                   ''month'') = Some (Inr m)
         else y = year_of (clock E (ticks w)) \<and> m = month_of (clock E (Suc (ticks w))))
     \<and> (form self = None \<longrightarrow>
          fst (get_form E self (w\<lparr>ticks := Suc (Suc (ticks w))\<rparr>)) =
            (if list_ex (\<lambda>key. key = ''month'' \<or> key = ''year'') (map fst (request_GET self))
             then Bound_form (request_GET self)
             else Unbound_form (month_of (clock E (Suc (Suc (ticks w)))))
                    (year_of (clock E (Suc (Suc (Suc (ticks w))))))))"
  using get_date_range_first [OF assms] date_range_args_choice [OF assms(2)]
    get_date_range_cached [of "self1\<lparr>start_attr := Some st, end_attr := Some en\<rparr>" st en E]
    get_form_fresh [of self E "w\<lparr>ticks := Suc (Suc (ticks w))\<rparr>"]
  by simp

lemma year_month_0:
  "year_of 63500000000000000 = 2013" "month_of 63500000000000001 = 3"
  "month_of 63500000000000002 = 3" "year_of 63500000000000003 = 2013"
  by (simp_all add: year_of_def month_of_def ord2ym_def usec_per_day_def Let_def
      days_before_month_def is_leap_def)

lemma args0:
  "date_range_args env0 global0 world0
     = (Inr (2013, 3), global0\<lparr>form := Some (Unbound_form 3 2013)\<rparr>, \<lparr>ticks = 4, events = []\<rparr>)"
  by (simp add: date_range_args_def get_form_def today_def timezone_now_def Let_def
      env0_def global0_def world0_def BaseUsage_init_def year_month_0)

lemma start0: "get_start 2013 3 1 = Inr 63497692800000000"
  by (simp add: get_start_def datetime_new_def make_aware_def mdays_def ymd2ord_def
      days_before_year_def days_before_month_def is_leap_def usec_per_day_def)

lemma end0:
  "get_end (clock env0) 2013 3 1 \<lparr>ticks = 4, events = []\<rparr>
     = (Inr 63500000000000005, \<lparr>ticks = 6, events = []\<rparr>)"
  by (simp add: get_end_def monthrange_days_def start0 datetime_add_def timedelta_days_def
      combine_midnight_def make_aware_def timezone_now_def mdays_def MAXORDINAL_def
      usec_per_day_def env0_def Let_def)

lemma args2:
  "date_range_args env2 bound0 world0
     = (Inr (2012, 5),
        bound0\<lparr>form := Some (Bound_form [(''month'', ''5''), (''year'', ''2012'')])\<rparr>,
        \<lparr>ticks = 2, events = []\<rparr>)"
  by (simp add: date_range_args_def get_form_def cleaned_int_def today_def timezone_now_def
      Let_def env2_def env0_def bound0_def world0_def BaseUsage_init_def)

lemma start2: "get_start 2012 5 1 = Inr 63471427200000000"
  by (simp add: get_start_def datetime_new_def make_aware_def mdays_def ymd2ord_def
      days_before_year_def days_before_month_def is_leap_def usec_per_day_def)

lemma end2:
  "get_end (clock env2) 2012 5 1 \<lparr>ticks = 2, events = []\<rparr>
     = (Inr 63474105600000000, \<lparr>ticks = 3, events = []\<rparr>)"
  by (simp add: get_end_def monthrange_days_def start2 datetime_add_def timedelta_days_def
      combine_midnight_def make_aware_def timezone_now_def mdays_def MAXORDINAL_def
      usec_per_day_def env2_def env0_def Let_def is_leap_def)

theorem get_date_range_idempotent_witness:
  "(start_attr global0 = None \<or> end_attr global0 = None)
   \<and> \<not> form_is_valid env0 (Unbound_form 3 2013)
   \<and> get_date_range env0 global0 world0
       = (Inr (63497692800000000, 63500000000000005),
          global0\<lparr>form := Some (Unbound_form 3 2013),
                  start_attr := Some 63497692800000000, end_attr := Some 63500000000000005\<rparr>,
          \<lparr>ticks = 6, events = []\<rparr>)
   \<and> get_date_range env0
         (global0\<lparr>form := Some (Unbound_form 3 2013),
                  start_attr := Some 63497692800000000, end_attr := Some 63500000000000005\<rparr>)
         \<lparr>ticks = 6, events = []\<rparr>
       = (Inr (63497692800000000, 63500000000000005),
          global0\<lparr>form := Some (Unbound_form 3 2013),
                  start_attr := Some 63497692800000000, end_attr := Some 63500000000000005\<rparr>,
          \<lparr>ticks = 6, events = []\<rparr>)
   \<and> (start_attr bound0 = None \<or> end_attr bound0 = None)
   \<and> form_is_valid env2 (Bound_form [(''month'', ''5''), (''year'', ''2012'')])
   \<and> cleaned_data env2 (Bound_form [(''month'', ''5''), (''year'', ''2012'')]) ''year''
       = Some (PStr ''2012'')
   \<and> cleaned_data env2 (Bound_form [(''month'', ''5''), (''year'', ''2012'')]) ''month''
       = Some (PStr ''5'')
   \<and> get_date_range env2 bound0 world0
       = (Inr (63471427200000000, 63474105600000000),
          bound0\<lparr>form := Some (Bound_form [(''month'', ''5''), (''year'', ''2012'')]),
                 start_attr := Some 63471427200000000, end_attr := Some 63474105600000000\<rparr>,
          \<lparr>ticks = 3, events = []\<rparr>)
   \<and> get_date_range env2
         (bound0\<lparr>form := Some (Bound_form [(''month'', ''5''), (''year'', ''2012'')]),
                 start_attr := Some 63471427200000000, end_attr := Some 63474105600000000\<rparr>)
         \<lparr>ticks = 9, events = []\<rparr>
       = (Inr (63471427200000000, 63474105600000000),
          bound0\<lparr>form := Some (Bound_form [(''month'', ''5''), (''year'', ''2012'')]),
                 start_attr := Some 63471427200000000, end_attr := Some 63474105600000000\<rparr>,
          \<lparr>ticks = 9, events = []\<rparr>)"
proof -
  have f: "start_attr global0 = None \<or> end_attr global0 = None"
    by (simp add: global0_def BaseUsage_init_def)
  have f2: "start_attr bound0 = None \<or> end_attr bound0 = None"
    by (simp add: bound0_def BaseUsage_init_def)
  have v: "\<not> form_is_valid env0 (Unbound_form 3 2013)"
    "form_is_valid env2 (Bound_form [(''month'', ''5''), (''year'', ''2012'')])"
    "cleaned_data env2 (Bound_form [(''month'', ''5''), (''year'', ''2012'')]) ''year''
       = Some (PStr ''2012'')"
    "cleaned_data env2 (Bound_form [(''month'', ''5''), (''year'', ''2012'')]) ''month''
       = Some (PStr ''5'')"
    by (simp_all add: env0_def env2_def)
  show ?thesis
    using get_date_range_idempotent [OF f args0 start0 end0]
      get_date_range_idempotent [OF f2 args2 start2 end2] f f2 v
    by simp
qed

section \<open>Properties of \<open>summarize\<close>\<close>

lemma add_item_apply:
  "add_item summ item k =
     (if k = fst item then Some (previous_value summ k + snd item) else summ k)"
  by (simp add: add_item_def previous_value_def Let_def split: option.splits)

lemma filter_absent:
  "k \<notin> fst ` set items \<Longrightarrow> filter (\<lambda>item. fst item = k) items = []"
  by (auto simp: filter_empty_conv)

lemma foldl_add_item:
  "foldl add_item summ items k =
     (if k \<in> fst ` set items
      then Some (sum_from (previous_value summ k) (map snd (filter (\<lambda>item. fst item = k) items)))
      else summ k)"
proof (induction items arbitrary: summ)
  case Nil
  then show ?case by simp
next
  case (Cons item items)
  have step: "foldl add_item summ (item # items) k = foldl add_item (add_item summ item) items k"
    by simp
  have prev: "previous_value (add_item summ item) k
      = (if k = fst item then previous_value summ k + snd item else previous_value summ k)"
    by (simp add: previous_value_def add_item_apply)
  show ?case
    unfolding step Cons.IH prev by (auto simp: add_item_apply filter_absent sum_from_def)
qed

lemma foldl_nested:
  "foldl (\<lambda>acc x. foldl f acc (g x)) acc xs = foldl f acc (concat (map g xs))"
  by (induction xs arbitrary: acc) simp_all

lemma add_summaries_summary:
  "summary (add_summaries E self) k =
     (if k \<in> summary_keys E (usage_list self)
      then Some (sum_from (previous_value (summary self) k) (key_values E (usage_list self) k))
      else summary self k)"
  by (simp add: add_summaries_def foldl_nested foldl_add_item summary_keys_def key_values_def)

lemma sum_from_int: "sum_from (a::int) vs = a + sum_list vs"
  unfolding sum_from_def by (induction vs arbitrary: a) simp_all

lemma add_summaries_summary_int:
  "summary (add_summaries E self) k =
     (if k \<in> summary_keys E (usage_list self)
      then Some (previous_value (summary self) k + key_total E (usage_list self) k)
      else summary self k)"
  by (simp add: add_summaries_summary sum_from_int key_total_def)

lemma add_summaries_frame [simp]:
  "usage_list (add_summaries E self) = usage_list self"
  "cls (add_summaries E self) = cls self"
  by (simp_all add: add_summaries_def)

lemma add_summaries_empty: "usage_list self = [] \<Longrightarrow> add_summaries E self = self"
  by (simp add: add_summaries_def)

lemma get_usage_list_frame:
  assumes "get_usage_list E self start end_time w = (r, self1, w1)"
  shows "summary self1 = summary self" and "usage_list self1 = usage_list self"
  using assms
  by (auto simp: get_usage_list_def GlobalUsage_get_usage_list_def
      ProjectUsage_get_usage_list_def Let_def today_def timezone_now_def
      split: usage_class.splits sum.splits option.splits prod.splits)

lemma range_in_past_eq:
  "range_in_past E start end_time w =
     (if start \<le> end_time \<and> end_time \<le> clock E (ticks w)
      then (True, w\<lparr>ticks := Suc (ticks w)\<rparr>)
      else (False, if start \<le> end_time then w\<lparr>ticks := Suc (ticks w)\<rparr> else w))"
  by (simp add: range_in_past_def today_def timezone_now_def)

text \<open>
  C1. For a date range with \<open>start <= end <= today\<close> for which \<open>get_usage_list\<close>
  returns a list, \<open>summarize\<close> returns normally, \<open>self.usage_list\<close> is that list, and
  for every key that appears in the summary of some project usage of the list,
  \<open>self.summary\<close> maps the key to the sum of the key's values over all project usages
  of the list, starting from the key's previous value (0 if absent) and adding the
  values one after the other in the order of the list; the other keys are unchanged.
  This holds for values of any numeric type, with no law assumed of its addition; for
  integers the sum is the previous value plus the total of the values
  (\<open>add_summaries_summary_int\<close>).
\<close>

theorem summarize_aggregates:
  assumes "start \<le> end_time" and "end_time \<le> clock E (ticks w)"
    and "get_usage_list E self (make_naive start) (make_naive end_time)
           (w\<lparr>ticks := Suc (ticks w)\<rparr>) = (Inr ul, self1, w1)"
  shows "summarize E self start end_time w
           = (None, add_summaries E (self1\<lparr>usage_list := ul\<rparr>), w1)
     \<and> usage_list (add_summaries E (self1\<lparr>usage_list := ul\<rparr>)) = ul
     \<and> (\<forall>key \<in> summary_keys E ul.
           summary (add_summaries E (self1\<lparr>usage_list := ul\<rparr>)) key
             = Some (sum_from (previous_value (summary self) key) (key_values E ul key)))
     \<and> (\<forall>key. key \<notin> summary_keys E ul \<longrightarrow>
           summary (add_summaries E (self1\<lparr>usage_list := ul\<rparr>)) key = summary self key)"
  using assms get_usage_list_frame(1) [OF assms(3)]
  by (simp add: summarize_def range_in_past_eq add_summaries_summary)


lemmas run_defs =
  summarize_def range_in_past_def today_def timezone_now_def get_usage_list_def
  GlobalUsage_get_usage_list_def make_naive_def log_event_def add_summaries_def
  add_item_def env0_def world0_def global0_def BaseUsage_init_def usage0_def
  summary_keys_def key_values_def sum_from_def previous_value_def

theorem summarize_aggregates_witness:
  "(63400000000000000::int) \<le> 63450000000000000
   \<and> (63450000000000000::int) \<le> clock env0 (ticks world0)
   \<and> fst (get_usage_list env0 global0 (make_naive 63400000000000000)
          (make_naive 63450000000000000) (world0\<lparr>ticks := Suc (ticks world0)\<rparr>))
       = Inr [usage0, usage0]
   \<and> fst (summarize env0 global0 63400000000000000 63450000000000000 world0) = None
   \<and> summary (fst (snd (summarize env0 global0 63400000000000000 63450000000000000 world0)))
        ''vcpus'' = Some 4"
proof -
  have r: "(63400000000000000::int) \<le> 63450000000000000"
    "(63450000000000000::int) \<le> clock env0 (ticks world0)"
    by (simp_all add: env0_def world0_def)
  have g: "get_usage_list env0 global0 (make_naive 63400000000000000)
          (make_naive 63450000000000000) (world0\<lparr>ticks := Suc (ticks world0)\<rparr>)
       = (Inr [usage0, usage0], global0,
          log_event (Nova_usage_list 63400000000000000 63450000000000000)
            (world0\<lparr>ticks := Suc (ticks world0)\<rparr>))"
    by (simp add: get_usage_list_def GlobalUsage_get_usage_list_def make_naive_def
        env0_def global0_def BaseUsage_init_def)
  have k: "''vcpus'' \<in> summary_keys env0 [usage0, usage0]"
    by (simp add: summary_keys_def env0_def)
  show ?thesis
    using summarize_aggregates [OF r g] r g k
    by (simp add: key_values_def sum_from_def previous_value_def env0_def global0_def
        BaseUsage_init_def)
qed

text \<open>
  C5. For a date range without \<open>start <= end <= today\<close>, \<open>summarize\<close> returns
  normally, the only external call it makes is the informational message about future
  data, \<open>self.usage_list\<close> keeps its value, an object whose \<open>usage_list\<close> is the
  initial empty list is left unchanged, and the result does not depend on the compute
  and identity API clients: they are not called.
\<close>

theorem summarize_future_no_query:
  assumes "\<not> (start \<le> end_time \<and> end_time \<le> clock E (ticks w))"
  shows "fst (summarize E self start end_time w) = None
     \<and> events (snd (snd (summarize E self start end_time w)))
         = events w @ [Messages_info future_msg]
     \<and> usage_list (fst (snd (summarize E self start end_time w))) = usage_list self
     \<and> (usage_list self = [] \<longrightarrow> fst (snd (summarize E self start end_time w)) = self)
     \<and> summarize (E\<lparr>nova_usage_list := f, nova_usage_get := g, keystone_tenant_get := h\<rparr>)
         self start end_time w = summarize E self start end_time w"
  using assms
  by (auto simp: summarize_def range_in_past_eq log_event_def add_summaries_empty
      add_summaries_def)

theorem summarize_future_no_query_witness:
  "\<not> ((63450000000000000::int) \<le> 63400000000000000
        \<and> (63400000000000000::int) \<le> clock env0 (ticks world0))
   \<and> summarize env0 global0 63450000000000000 63400000000000000 world0
       = (None, global0, \<lparr>ticks = 0, events = [Messages_info future_msg]\<rparr>)"
  using summarize_future_no_query
    [of 63450000000000000 63400000000000000 env0 world0 global0]
  by (simp add: prod_eq_iff world0_def global0_def BaseUsage_init_def summarize_def
      range_in_past_def log_event_def)

text \<open>
  The object \<open>global1\<close> is reached from a fresh one by a successful call.
\<close>

lemma first_call:
  "summarize env0 global0 63400000000000000 63450000000000000 world0
     = (None, global1, world1)"
  by (simp add: global1_def world1_def prod_eq_iff run_defs)

lemma global1_fields:
  "usage_list global1 = [usage0, usage0]"
  "cls global1 = GlobalUsage"
  "summary global1 ''vcpus'' = Some 4"
  "summary global1 ''instances'' = Some 2"
  by (simp_all add: global1_def run_defs)

lemma world1_fields: "ticks world1 = 1"
  by (simp add: world1_def run_defs)

text \<open>
  C6, as stated: when \<open>get_usage_list\<close> raises, \<open>self.summary\<close> receives no new
  contributions from the call. On \<open>global1\<close>, whose \<open>usage_list\<close> comes from an earlier
  successful call, a second call for a range on which the API fails is handled, and the
  summary of \<open>vcpus\<close> goes from 4 to 8: the loop adds the earlier list once more.
\<close>

theorem summarize_failure_adds_again:
  "(63400000000000000::int) \<le> 63460000000000000
   \<and> (63460000000000000::int) \<le> clock env0 (ticks world1)
   \<and> fst (get_usage_list env0 global1 (make_naive 63400000000000000)
            (make_naive 63460000000000000) (world1\<lparr>ticks := Suc (ticks world1)\<rparr>))
       = Inl (ApiError ''down'')
   \<and> fst (summarize env0 global1 63400000000000000 63460000000000000 world1) = None
   \<and> summary global1 ''vcpus'' = Some 4
   \<and> summary (fst (snd (summarize env0 global1 63400000000000000 63460000000000000 world1)))
        ''vcpus'' = Some 8"
proof -
  have g: "get_usage_list env0 global1 (make_naive 63400000000000000)
            (make_naive 63460000000000000) (world1\<lparr>ticks := Suc (ticks world1)\<rparr>)
       = (Inl (ApiError ''down''), global1,
          log_event (Nova_usage_list 63400000000000000 63460000000000000)
            (world1\<lparr>ticks := Suc (ticks world1)\<rparr>))"
    by (simp add: get_usage_list_def GlobalUsage_get_usage_list_def global1_fields
        make_naive_def env0_def)
  have c: "(63460000000000000::int) \<le> clock env0 (ticks world1)"
    by (simp add: world1_fields env0_def)
  have s: "summarize env0 global1 63400000000000000 63460000000000000 world1
      = (None, add_summaries env0 global1,
         log_event (Exceptions_handle unable_msg)
           (log_event (Nova_usage_list 63400000000000000 63460000000000000)
              (world1\<lparr>ticks := Suc (ticks world1)\<rparr>)))"
    using c by (simp add: summarize_def range_in_past_eq g) (simp add: env0_def)
  have k: "''vcpus'' \<in> summary_keys env0 [usage0, usage0]"
    by (simp add: summary_keys_def env0_def)
  have t: "key_values env0 [usage0, usage0] ''vcpus'' = [2, 2]"
    by (simp add: key_values_def env0_def)
  show ?thesis
    using c
    by (simp add: g s add_summaries_summary k t previous_value_def sum_from_def global1_fields)
qed

text \<open>
  C6, amended: for a date range with \<open>start <= end <= today\<close>, when \<open>get_usage_list\<close>
  raises, \<open>summarize\<close> calls \<open>exceptions.handle\<close> with the message
  \<open>Unable to retrieve usage information.\<close> and \<open>self.usage_list\<close> keeps its previous
  value. When \<open>exceptions.handle\<close> raises, that exception leaves \<open>summarize\<close> and
  \<open>self.summary\<close> is unchanged; when it returns, \<open>self.summary\<close> receives the
  contributions of that previous \<open>usage_list\<close>, added one after the other to the
  previous value of each key, which are none when it is the initial empty list.
\<close>

theorem summarize_api_failure:
  assumes "start \<le> end_time" and "end_time \<le> clock E (ticks w)"
    and "get_usage_list E self (make_naive start) (make_naive end_time)
           (w\<lparr>ticks := Suc (ticks w)\<rparr>) = (Inl e, self1, w1)"
  shows "summarize E self start end_time w =
           (case handle E e of
              None \<Rightarrow> (None, add_summaries E self1, log_event (Exceptions_handle unable_msg) w1)
            | Some e' \<Rightarrow> (Some e', self1, log_event (Exceptions_handle unable_msg) w1))
     \<and> usage_list self1 = usage_list self
     \<and> summary self1 = summary self
     \<and> usage_list (add_summaries E self1) = usage_list self
     \<and> (\<forall>key. summary (add_summaries E self1) key =
           (if key \<in> summary_keys E (usage_list self)
            then Some (sum_from (previous_value (summary self) key)
                         (key_values E (usage_list self) key))
            else summary self key))
     \<and> (usage_list self = [] \<longrightarrow> summary (add_summaries E self1) = summary self)"
  using assms get_usage_list_frame [OF assms(3)]
  by (auto simp: summarize_def range_in_past_eq add_summaries_summary add_summaries_empty
      split: option.splits)


theorem summarize_api_failure_witness:
  "(63400000000000000::int) \<le> 63460000000000000
   \<and> (63460000000000000::int) \<le> clock env0 (ticks world0)
   \<and> fst (get_usage_list env0 global0 (make_naive 63400000000000000)
            (make_naive 63460000000000000) (world0\<lparr>ticks := Suc (ticks world0)\<rparr>))
       = Inl (ApiError ''down'')
   \<and> handle env0 (ApiError ''down'') = None
   \<and> usage_list global0 = []
   \<and> summarize env0 global0 63400000000000000 63460000000000000 world0
       = (None, global0,
          \<lparr>ticks = 1, events = [Nova_usage_list 63400000000000000 63460000000000000,
                                 Exceptions_handle unable_msg]\<rparr>)"
proof -
  have r: "(63400000000000000::int) \<le> 63460000000000000"
    "(63460000000000000::int) \<le> clock env0 (ticks world0)"
    by (simp_all add: env0_def world0_def)
  have g: "get_usage_list env0 global0 (make_naive 63400000000000000)
            (make_naive 63460000000000000) (world0\<lparr>ticks := Suc (ticks world0)\<rparr>)
       = (Inl (ApiError ''down''), global0,
          log_event (Nova_usage_list 63400000000000000 63460000000000000)
            (world0\<lparr>ticks := Suc (ticks world0)\<rparr>))"
    by (simp add: get_usage_list_def GlobalUsage_get_usage_list_def make_naive_def
        env0_def global0_def BaseUsage_init_def)
  have h: "handle env0 (ApiError ''down'') = None"
    by (simp add: env0_def)
  have u: "usage_list global0 = []"
    by (simp add: global0_def BaseUsage_init_def)
  show ?thesis
    using summarize_api_failure [OF r g] r g h u
    by (simp add: add_summaries_empty log_event_def world0_def)
qed

section \<open>Properties of \<open>ProjectUsage.get_usage_list\<close>\<close>

lemma uptime_at_well_formed:
  assumes "well_formed_usage now su"
  obtains v where "su ''uptime'' = Some v"
    and "uptime_at now v = Inr (now - the (uptime_seconds su) * 1000000)"
    and "su ''ended_at'' \<noteq> None"
  using assms
  by (auto simp: well_formed_usage_def uptime_seconds_def uptime_at_def datetime_add_def
      timedelta_seconds_def Let_def split: option.splits pyval.splits if_splits)

lemma loop_step:
  assumes "well_formed_usage now su"
  shows "server_usages_loop now show_term (su # rest) instances terminated_instances =
     (if ended su \<and> \<not> show_term
      then server_usages_loop now show_term rest instances
             (terminated_instances @ [with_uptime_at now su])
      else server_usages_loop now show_term rest (instances @ [with_uptime_at now su])
             terminated_instances)"
proof -
  from assms obtain v where v: "su ''uptime'' = Some v"
    "uptime_at now v = Inr (now - the (uptime_seconds su) * 1000000)"
    "su ''ended_at'' \<noteq> None"
    by (rule uptime_at_well_formed)
  then obtain ea where ea: "su ''ended_at'' = Some ea" by auto
  show ?thesis
    by (simp add: v ea Let_def ended_def with_uptime_at_def)
qed

lemma server_usages_loop_well_formed:
  assumes "\<forall>su \<in> set sus. well_formed_usage now su"
  shows "server_usages_loop now show_term sus instances terminated_instances =
     Inr (instances @ retained_usages now show_term sus,
          terminated_instances
            @ map (with_uptime_at now) (filter (\<lambda>su. \<not> (show_term \<or> \<not> ended su)) sus))"
  using assms
proof (induction sus arbitrary: instances terminated_instances)
  case Nil
  then show ?case by (simp add: retained_usages_def)
next
  case (Cons su sus)
  then have wf: "well_formed_usage now su" and rest: "\<forall>su \<in> set sus. well_formed_usage now su"
    by simp_all
  show ?case
    unfolding loop_step [OF wf] using Cons.IH [OF rest]
    by (auto simp: retained_usages_def)
qed

text \<open>
  C9. When the compute API returns a usage object and the identity API a tenant,
  \<open>ProjectUsage.get_usage_list\<close> returns a one-element tuple holding that usage object.
  Its \<open>server_usages\<close> is the empty list when the object had none; otherwise, for
  well-formed entries, it holds every entry when \<open>show_terminated\<close> is truthy and exactly
  the entries whose \<open>ended_at\<close> is falsy when it is not, in order, each with the key
  \<open>uptime_at\<close> set to \<open>now\<close> minus its \<open>uptime\<close> in seconds.
\<close>

theorem ProjectUsage_filters_terminated:
  assumes "nova_usage_get E (project_id self) start end_time = Inr u"
    and "keystone_tenant_get E (project_id self) = Inr project"
    and "\<forall>sus. server_usages u = Some sus
           \<longrightarrow> (\<forall>su \<in> set sus. well_formed_usage (clock E (ticks w)) su)"
  shows "fst (ProjectUsage_get_usage_list E self start end_time w) =
           Inr [u\<lparr>server_usages := Some
                  (case server_usages u of
                     None \<Rightarrow> []
                   | Some sus \<Rightarrow>
                       retained_usages (clock E (ticks w))
                         (py_truthy (GET_show_terminated self)) sus)\<rparr>]
     \<and> (py_truthy (GET_show_terminated self) \<longrightarrow>
          retained_usages (clock E (ticks w)) (py_truthy (GET_show_terminated self))
            = map (with_uptime_at (clock E (ticks w))))
     \<and> (\<not> py_truthy (GET_show_terminated self) \<longrightarrow>
          retained_usages (clock E (ticks w)) (py_truthy (GET_show_terminated self))
            = (\<lambda>sus. map (with_uptime_at (clock E (ticks w))) (filter (\<lambda>su. \<not> ended su) sus)))
     \<and> (\<forall>su n. uptime_seconds su = Some n \<longrightarrow>
          with_uptime_at (clock E (ticks w)) su
            = su(''uptime_at'' \<mapsto> PTime (clock E (ticks w) - n * 1000000)))"
proof -
  have 1: "fst (ProjectUsage_get_usage_list E self start end_time w) =
           Inr [u\<lparr>server_usages := Some
                  (case server_usages u of
                     None \<Rightarrow> []
                   | Some sus \<Rightarrow>
                       retained_usages (clock E (ticks w))
                         (py_truthy (GET_show_terminated self)) sus)\<rparr>]"
  proof (cases "server_usages u")
    case None
    then show ?thesis
      by (simp add: ProjectUsage_get_usage_list_def assms(1,2) Let_def)
  next
    case (Some sus)
    then have "\<forall>su \<in> set sus. well_formed_usage (clock E (ticks w)) su"
      using assms(3) by simp
    then show ?thesis
      by (simp add: ProjectUsage_get_usage_list_def assms(1,2) Let_def Some today_def
          timezone_now_def log_event_def server_usages_loop_well_formed)
  qed
  show ?thesis
    using 1 by (auto simp: retained_usages_def with_uptime_at_def)
qed


theorem ProjectUsage_filters_terminated_witness:
  "nova_usage_get env1 (project_id project0) 63400000000000000 63450000000000000
     = Inr \<lparr>tenant_id = ''t1'', server_usages = Some [running0, terminated0]\<rparr>
   \<and> keystone_tenant_get env1 (project_id project0) = Inr \<lparr>name = ''demo''\<rparr>
   \<and> well_formed_usage (clock env1 (ticks world0)) running0
   \<and> well_formed_usage (clock env1 (ticks world0)) terminated0
   \<and> \<not> py_truthy (GET_show_terminated project0)
   \<and> fst (ProjectUsage_get_usage_list env1 project0 63400000000000000 63450000000000000 world0)
       = Inr [\<lparr>tenant_id = ''t1'',
               server_usages = Some [running0(''uptime_at'' \<mapsto> PTime 63499999940000000)]\<rparr>]"
proof -
  have a: "nova_usage_get env1 (project_id project0) 63400000000000000 63450000000000000
     = Inr \<lparr>tenant_id = ''t1'', server_usages = Some [running0, terminated0]\<rparr>"
    by (simp add: env1_def project0_def BaseUsage_init_def)
  have b: "keystone_tenant_get env1 (project_id project0) = Inr \<lparr>name = ''demo''\<rparr>"
    by (simp add: env1_def env0_def)
  have c: "clock env1 (ticks world0) = 63500000000000000"
    by (simp add: env1_def env0_def world0_def)
  have u: "uptime_seconds running0 = Some 60" "uptime_seconds terminated0 = Some 120"
    by (simp_all add: uptime_seconds_def running0_def terminated0_def)
  have e: "\<not> ended running0" "ended terminated0"
    by (simp_all add: ended_def running0_def terminated0_def)
  have wf: "well_formed_usage (clock env1 (ticks world0)) running0"
    "well_formed_usage (clock env1 (ticks world0)) terminated0"
    unfolding c
    by (simp_all add: well_formed_usage_def u MAXORDINAL_def usec_per_day_def)
       (simp_all add: running0_def terminated0_def)
  have st: "\<not> py_truthy (GET_show_terminated project0)"
    by (simp add: GET_show_terminated_def GET_get_def project0_def BaseUsage_init_def)
  have h: "\<forall>sus. server_usages \<lparr>tenant_id = ''t1'', server_usages = Some [running0, terminated0]\<rparr>
             = Some sus
           \<longrightarrow> (\<forall>su \<in> set sus. well_formed_usage (clock env1 (ticks world0)) su)"
    using wf by simp
  show ?thesis
    using ProjectUsage_filters_terminated [OF a b h] a b wf st
    by (simp add: c retained_usages_def e with_uptime_at_def u)
qed

end
